theory Spec2Isabelle
  imports Main "HOL-Library.Multiset" "HOL-Library.Log_Nat"
begin

section \<open>The post module of Momento (convex/posts.ts)\<close>

text \<open>
  The module holds four mutations (generateUploadUrl, createPost, toggleLike, deletePost)
  and one query (getFeedPosts) that run on a managed document database with a file
  storage. A handler is embedded as a function from the request context to a result and
  the context the call leaves behind; a thrown \<^verbatim>\<open>Error\<close> is the left
  summand of the result. Every \<^verbatim>\<open>throw\<close> statement of the handlers is
  embedded at its place in the sequence of reads and writes and returns the context
  reached there, so that "nothing was written before the throw" is a statement about the
  handler. One failure comes from the platform after writes of the handler:
  \<^verbatim>\<open>ctx.storage.delete\<close> on a missing file, in deletePost. A mutation is a
  transaction whose writes the platform discards when it throws, so that branch returns
  the context the call started with.
\<close>

subsection \<open>Documents\<close>

text \<open>
  Every document carries the \<^verbatim>\<open>_id\<close> the database gave it. Field names are
  prefixed with their table, since the tables share names such as \<^verbatim>\<open>userId\<close>.
  The counters are JavaScript numbers, that is float64 values. The handlers only add and
  subtract 1 and write the constants 0 and 2, so the counters are modelled as the
  integer-valued float64 values they take from an integer start; fractions, NaN and the
  infinities are outside the model. They may become negative: the source never clamps
  \<^verbatim>\<open>likes\<close>. Only the fields that posts.ts reads or writes are modelled.
\<close>

record user =
  user_id :: nat
  user_clerkId :: string
  user_username :: string
  user_image :: string
  user_posts :: int

record post =
  post_id :: nat
  post_creationTime :: nat
  post_userId :: nat
  post_imageUrl :: string
  post_storageId :: nat
  post_caption :: "string option"
  post_likes :: int
  post_comments :: int

record like =
  like_id :: nat
  like_userId :: nat
  like_postId :: nat

record comment =
  comment_id :: nat
  comment_postId :: nat

record bookmark =
  bookmark_id :: nat
  bookmark_userId :: nat
  bookmark_postId :: nat

record notification =
  notification_id :: nat
  notification_receiverId :: nat
  notification_senderId :: nat
  notification_type :: string
  notification_postId :: "nat option"

record stored_file =
  file_id :: nat
  file_url :: string

subsection \<open>The database, the storage and the request context\<close>

text \<open>
  A table is the list of its documents in the order of their insertion, oldest first;
  this is the order in which an index returns documents with equal keys, so
  \<^verbatim>\<open>.first()\<close> is the first match of the list. \<open>next_id\<close> is the
  identifier the next inserted document receives.
\<close>

record database =
  users :: "user list"
  posts :: "post list"
  likes :: "like list"
  comments :: "comment list"
  bookmarks :: "bookmark list"
  notifications :: "notification list"
  next_id :: nat

record identity =
  subject :: string

record ctx =
  auth :: "identity option"
  db :: database
  storage :: "stored_file list"
  now :: nat

text \<open>\<open>Error s\<close> is \<^verbatim>\<open>new Error(s)\<close> thrown by a handler;
  \<open>StorageFileNotFound\<close> is the platform's own failure of
  \<^verbatim>\<open>ctx.storage.delete\<close>, whose message the source does not fix.\<close>

datatype error = Error string | StorageFileNotFound

record createPost_args =
  caption :: "string option"
  storageId :: nat

record author_info =
  author_id :: "nat option"
  author_username :: "string option"
  author_image :: "string option"

record feed_item =
  feed_post :: post
  author :: author_info
  isLiked :: bool
  isBookmarked :: bool

subsection \<open>JavaScript numbers\<close>

text \<open>
  \<open>f64_round n\<close> is the float64 nearest to the integer \<open>n\<close>, ties to the even
  significand: integers up to \<open>2^53\<close> in magnitude are float64 values; beyond, the
  53 leading bits are kept and the \<open>e\<close> dropped bits decide the rounding. The
  \<^verbatim>\<open>+\<close> of the source on two integer-valued numbers is the rounded exact sum
  (a float64 plus 1 never overflows).
\<close>

definition f64_round :: "int \<Rightarrow> int" where
  "f64_round n =
     (let a = \<bar>n\<bar> in
      if a \<le> 2 ^ 53 then n
      else
        (let e = nat (bitlen a - 53);
             q = a div 2 ^ e;
             r = a mod 2 ^ e;
             h = 2 ^ (e - 1);
             q' = (if h < r \<or> (r = h \<and> odd q) then q + 1 else q)
         in sgn n * q' * 2 ^ e))"

definition number_add :: "int \<Rightarrow> int \<Rightarrow> int" where
  "number_add x y = f64_round (x + y)"

subsection \<open>The platform's operations\<close>

text \<open>
  \<^verbatim>\<open>ctx.db.get\<close>, the index queries followed by \<^verbatim>\<open>.first()\<close> or
  \<^verbatim>\<open>.collect()\<close>, \<^verbatim>\<open>insert\<close>, \<^verbatim>\<open>patch\<close> and
  \<^verbatim>\<open>delete\<close>. The handlers patch and delete only documents they have read in
  the same call, so the platform's failure on a missing document is not a branch here.
  The file of a post is not read before it is deleted, and it can be missing (two posts
  may share a storage id): \<^verbatim>\<open>ctx.storage.delete\<close> fails then.
\<close>

definition db_get_user :: "database \<Rightarrow> nat \<Rightarrow> user option" where
  "db_get_user d i = find (\<lambda>u. user_id u = i) (users d)"

definition db_get_post :: "database \<Rightarrow> nat \<Rightarrow> post option" where
  "db_get_post d i = find (\<lambda>p. post_id p = i) (posts d)"

definition users_by_clerk_id :: "database \<Rightarrow> string \<Rightarrow> user option" where
  "users_by_clerk_id d s = find (\<lambda>u. user_clerkId u = s) (users d)"

definition likes_by_user_and_post :: "database \<Rightarrow> nat \<Rightarrow> nat \<Rightarrow> like option" where
  "likes_by_user_and_post d uid pid =
     find (\<lambda>l. like_userId l = uid \<and> like_postId l = pid) (likes d)"

definition bookmarks_by_user_and_post :: "database \<Rightarrow> nat \<Rightarrow> nat \<Rightarrow> bookmark option" where
  "bookmarks_by_user_and_post d uid pid =
     find (\<lambda>b. bookmark_userId b = uid \<and> bookmark_postId b = pid) (bookmarks d)"

definition likes_by_post :: "database \<Rightarrow> nat \<Rightarrow> like list" where
  "likes_by_post d pid = filter (\<lambda>l. like_postId l = pid) (likes d)"

definition comments_by_post :: "database \<Rightarrow> nat \<Rightarrow> comment list" where
  "comments_by_post d pid = filter (\<lambda>c. comment_postId c = pid) (comments d)"

definition bookmarks_by_post :: "database \<Rightarrow> nat \<Rightarrow> bookmark list" where
  "bookmarks_by_post d pid = filter (\<lambda>b. bookmark_postId b = pid) (bookmarks d)"

text \<open>\<^verbatim>\<open>query("posts").order("desc").collect()\<close>: the default index orders by
  creation time.\<close>

definition posts_order_desc :: "database \<Rightarrow> post list" where
  "posts_order_desc d = rev (sort_key post_creationTime (posts d))"

text \<open>An insert takes the document as a function of the identifier (and, for a post, of
  the creation time) that the platform supplies, and returns the identifier.\<close>

definition db_insert_post :: "database \<Rightarrow> nat \<Rightarrow> (nat \<Rightarrow> nat \<Rightarrow> post) \<Rightarrow> nat \<times> database" where
  "db_insert_post d t mk =
     (next_id d, d\<lparr>posts := posts d @ [mk (next_id d) t], next_id := Suc (next_id d)\<rparr>)"

definition db_insert_like :: "database \<Rightarrow> (nat \<Rightarrow> like) \<Rightarrow> nat \<times> database" where
  "db_insert_like d mk =
     (next_id d, d\<lparr>likes := likes d @ [mk (next_id d)], next_id := Suc (next_id d)\<rparr>)"

definition db_insert_notification :: "database \<Rightarrow> (nat \<Rightarrow> notification) \<Rightarrow> nat \<times> database" where
  "db_insert_notification d mk =
     (next_id d,
      d\<lparr>notifications := notifications d @ [mk (next_id d)], next_id := Suc (next_id d)\<rparr>)"

definition db_patch_user_posts :: "database \<Rightarrow> nat \<Rightarrow> int \<Rightarrow> database" where
  "db_patch_user_posts d i n =
     d\<lparr>users := map (\<lambda>u. if user_id u = i then u\<lparr>user_posts := n\<rparr> else u) (users d)\<rparr>"

definition db_patch_post_likes :: "database \<Rightarrow> nat \<Rightarrow> int \<Rightarrow> database" where
  "db_patch_post_likes d i n =
     d\<lparr>posts := map (\<lambda>p. if post_id p = i then p\<lparr>post_likes := n\<rparr> else p) (posts d)\<rparr>"

definition db_delete_post :: "database \<Rightarrow> nat \<Rightarrow> database" where
  "db_delete_post d i = d\<lparr>posts := filter (\<lambda>p. post_id p \<noteq> i) (posts d)\<rparr>"

definition db_delete_like :: "database \<Rightarrow> nat \<Rightarrow> database" where
  "db_delete_like d i = d\<lparr>likes := filter (\<lambda>l. like_id l \<noteq> i) (likes d)\<rparr>"

definition db_delete_comment :: "database \<Rightarrow> nat \<Rightarrow> database" where
  "db_delete_comment d i = d\<lparr>comments := filter (\<lambda>c. comment_id c \<noteq> i) (comments d)\<rparr>"

definition db_delete_bookmark :: "database \<Rightarrow> nat \<Rightarrow> database" where
  "db_delete_bookmark d i = d\<lparr>bookmarks := filter (\<lambda>b. bookmark_id b \<noteq> i) (bookmarks d)\<rparr>"

definition storage_getUrl :: "stored_file list \<Rightarrow> nat \<Rightarrow> string option" where
  "storage_getUrl s i = map_option file_url (find (\<lambda>f. file_id f = i) s)"

definition storage_delete :: "stored_file list \<Rightarrow> nat \<Rightarrow> error + stored_file list" where
  "storage_delete s i =
     (case find (\<lambda>f. file_id f = i) s of
        None \<Rightarrow> Inl StorageFileNotFound
      | Some f \<Rightarrow> Inr (filter (\<lambda>f. file_id f \<noteq> i) s))"

subsection \<open>The authentication helper\<close>

text \<open>
  Modelled from the spec: \<^verbatim>\<open>getAunthenticatedUser\<close> is imported from
  \<^verbatim>\<open>./users\<close>, which is not among the sources. The spec gives every operation
  the shape "authenticate caller, look up related records by index, ... or signal an
  Unauthorized / not found failure" and requires that "unauthenticated calls to any
  mutation fail with an authorization error"; the helper is therefore the two checks
  that createPost spells out inline, and it writes nothing.
\<close>

definition getAunthenticatedUser :: "ctx \<Rightarrow> error + user" where
  "getAunthenticatedUser c =
     (case auth c of
        None \<Rightarrow> Inl (Error ''Unauthorized'')
      | Some identity \<Rightarrow>
          (case users_by_clerk_id (db c) (subject identity) of
             None \<Rightarrow> Inl (Error ''User not found'')
           | Some currentUser \<Rightarrow> Inr currentUser))"

subsection \<open>The handlers\<close>

text \<open>generateUploadUrl; the platform's \<^verbatim>\<open>ctx.storage.generateUploadUrl\<close> is
  the parameter \<open>gen\<close>.\<close>

definition generateUploadUrl :: "(ctx \<Rightarrow> string \<times> ctx) \<Rightarrow> ctx \<Rightarrow> (error + string) \<times> ctx" where
  "generateUploadUrl gen c =
     (case auth c of
        None \<Rightarrow> (Inl (Error ''Unauthorized''), c)
      | Some identity \<Rightarrow> (case gen c of (url, c') \<Rightarrow> (Inr url, c')))"

text \<open>createPost. \<^verbatim>\<open>!imageUrl\<close> holds for \<^verbatim>\<open>null\<close> and for the empty
  string; \<^verbatim>\<open>currentUser.posts + 1\<close> is a float64 addition.\<close>

definition createPost :: "ctx \<Rightarrow> createPost_args \<Rightarrow> (error + nat) \<times> ctx" where
  "createPost c args =
     (case auth c of
        None \<Rightarrow> (Inl (Error ''Unauthorized''), c)
      | Some identity \<Rightarrow>
          (case users_by_clerk_id (db c) (subject identity) of
             None \<Rightarrow> (Inl (Error ''User not found''), c)
           | Some currentUser \<Rightarrow>
               (case storage_getUrl (storage c) (storageId args) of
                  None \<Rightarrow> (Inl (Error ''Image not found''), c)
                | Some imageUrl \<Rightarrow>
                    if imageUrl = [] then (Inl (Error ''Image not found''), c)
                    else
                      (case db_insert_post (db c) (now c)
                              (\<lambda>i t. \<lparr>post_id = i, post_creationTime = t,
                                      post_userId = user_id currentUser,
                                      post_imageUrl = imageUrl,
                                      post_storageId = storageId args,
                                      post_caption = caption args,
                                      post_likes = 0, post_comments = 0\<rparr>) of
                         (postId, d1) \<Rightarrow>
                           let d2 = db_patch_user_posts d1 (user_id currentUser)
                                      (number_add (user_posts currentUser) 1)
                           in (Inr postId, c\<lparr>db := d2\<rparr>)))))"

text \<open>getFeedPosts, a query: it returns no context.\<close>

definition feed_info :: "database \<Rightarrow> user \<Rightarrow> post \<Rightarrow> feed_item" where
  "feed_info d currentUser p =
     (let postAuthor = db_get_user d (post_userId p);
          lk = likes_by_user_and_post d (user_id currentUser) (post_id p);
          bm = bookmarks_by_user_and_post d (user_id currentUser) (post_id p)
      in \<lparr>feed_post = p,
          author = \<lparr>author_id = map_option user_id postAuthor,
                     author_username = map_option user_username postAuthor,
                     author_image = map_option user_image postAuthor\<rparr>,
          isLiked = (lk \<noteq> None),
          isBookmarked = (bm \<noteq> None)\<rparr>)"

definition getFeedPosts :: "ctx \<Rightarrow> error + feed_item list" where
  "getFeedPosts c =
     (case getAunthenticatedUser c of
        Inl e \<Rightarrow> Inl e
      | Inr currentUser \<Rightarrow>
          (let ps = posts_order_desc (db c)
           in if length ps = 0 then Inr []
              else Inr (map (feed_info (db c) currentUser) ps)))"

text \<open>toggleLike. \<^verbatim>\<open>post.likes - 1\<close> and \<^verbatim>\<open>post.likes + 1\<close>
  are written as exact integer steps: what is proved of the likes counter below is proved
  of databases in which it is the number of stored Like documents of the post
  (\<open>likes_mirror\<close>), a number far below \<open>2^53\<close>, where the float64 step is
  exact.\<close>

definition toggleLike :: "ctx \<Rightarrow> nat \<Rightarrow> (error + bool) \<times> ctx" where
  "toggleLike c postId =
     (case getAunthenticatedUser c of
        Inl e \<Rightarrow> (Inl e, c)
      | Inr currentUser \<Rightarrow>
          (let existingLike = likes_by_user_and_post (db c) (user_id currentUser) postId
           in case db_get_post (db c) postId of
                None \<Rightarrow> (Inl (Error ''Post not found''), c)
              | Some p \<Rightarrow>
                  (case existingLike of
                     Some l \<Rightarrow>
                       (let d1 = db_delete_like (db c) (like_id l);
                            d2 = db_patch_post_likes d1 postId (post_likes p - 1)
                        in (Inr False, c\<lparr>db := d2\<rparr>))
                   | None \<Rightarrow>
                       (let d1 = snd (db_insert_like (db c)
                                   (\<lambda>i. \<lparr>like_id = i, like_userId = user_id currentUser,
                                         like_postId = postId\<rparr>));
                            d2 = db_patch_post_likes d1 postId (post_likes p + 1);
                            d3 = (if user_id currentUser \<noteq> post_userId p
                                  then snd (db_insert_notification d2
                                         (\<lambda>i. \<lparr>notification_id = i,
                                               notification_receiverId = post_userId p,
                                               notification_senderId = user_id currentUser,
                                               notification_type = ''like'',
                                               notification_postId = Some postId\<rparr>))
                                  else d2)
                        in (Inr True, c\<lparr>db := d3\<rparr>)))))"

text \<open>deletePost. Each \<^verbatim>\<open>for\<close> loop is a fold over the collected documents;
  \<^verbatim>\<open>Math.max(0, 2)\<close> is kept as written. When
  \<^verbatim>\<open>ctx.storage.delete\<close> fails, the deletions made so far are discarded with
  the transaction.\<close>

definition deletePost :: "ctx \<Rightarrow> nat \<Rightarrow> (error + unit) \<times> ctx" where
  "deletePost c postId =
     (case getAunthenticatedUser c of
        Inl e \<Rightarrow> (Inl e, c)
      | Inr currentUser \<Rightarrow>
          (case db_get_post (db c) postId of
             None \<Rightarrow> (Inl (Error ''Post not found''), c)
           | Some p \<Rightarrow>
               if post_userId p \<noteq> user_id currentUser
               then (Inl (Error ''Not authorized to delete this post''), c)
               else
                 (let d1 = fold (\<lambda>l d. db_delete_like d (like_id l))
                             (likes_by_post (db c) postId) (db c);
                      d2 = fold (\<lambda>cm d. db_delete_comment d (comment_id cm))
                             (comments_by_post d1 postId) d1;
                      d3 = fold (\<lambda>b d. db_delete_bookmark d (bookmark_id b))
                             (bookmarks_by_post d2 postId) d2
                  in case storage_delete (storage c) (post_storageId p) of
                       Inl e \<Rightarrow> (Inl e, c)
                     | Inr s1 \<Rightarrow>
                         (let d4 = db_delete_post d3 postId;
                              d5 = db_patch_user_posts d4 (user_id currentUser) (max 0 2)
                          in (Inr (), c\<lparr>db := d5, storage := s1\<rparr>)))))"

subsection \<open>The writes of deletePost and toggleLike in closed form\<close>

text \<open>The effect of the writes of deletePost in closed form, for the post \<open>pid\<close>
  and the acting user \<open>uid\<close>; that deletePost computes it is a lemma below.\<close>

definition deleted_db :: "database \<Rightarrow> nat \<Rightarrow> nat \<Rightarrow> database" where
  "deleted_db d pid uid =
     d\<lparr>users := map (\<lambda>u. if user_id u = uid then u\<lparr>user_posts := 2\<rparr> else u) (users d),
       posts := filter (\<lambda>p. post_id p \<noteq> pid) (posts d),
       likes := filter (\<lambda>l. like_id l \<notin> like_id ` set (likes_by_post d pid)) (likes d),
       comments := filter (\<lambda>x. comment_id x \<notin> comment_id ` set (comments_by_post d pid)) (comments d),
       bookmarks := filter (\<lambda>x. bookmark_id x \<notin> bookmark_id ` set (bookmarks_by_post d pid)) (bookmarks d)\<rparr>"

text \<open>The effect of the writes of toggleLike in closed form, for the post \<open>p\<close> read
  under \<open>pid\<close>: the removal of the existing like \<open>l\<close>, and the insertion of a like
  by the user \<open>u\<close>.\<close>

definition unliked_db :: "database \<Rightarrow> nat \<Rightarrow> post \<Rightarrow> like \<Rightarrow> database" where
  "unliked_db d pid p l =
     d\<lparr>posts := map (\<lambda>q. if post_id q = pid then q\<lparr>post_likes := post_likes p - 1\<rparr> else q) (posts d),
       likes := filter (\<lambda>x. like_id x \<noteq> like_id l) (likes d)\<rparr>"

definition liked_db :: "database \<Rightarrow> nat \<Rightarrow> post \<Rightarrow> user \<Rightarrow> database" where
  "liked_db d pid p u =
     d\<lparr>posts := map (\<lambda>q. if post_id q = pid then q\<lparr>post_likes := post_likes p + 1\<rparr> else q) (posts d),
       likes := likes d @ [\<lparr>like_id = next_id d, like_userId = user_id u, like_postId = pid\<rparr>],
       notifications := notifications d @
         (if user_id u \<noteq> post_userId p
          then [\<lparr>notification_id = Suc (next_id d), notification_receiverId = post_userId p,
                 notification_senderId = user_id u, notification_type = ''like'',
                 notification_postId = Some pid\<rparr>]
          else []),
       next_id := (if user_id u \<noteq> post_userId p then Suc (Suc (next_id d)) else Suc (next_id d))\<rparr>"

subsection \<open>Invariants\<close>

text \<open>
  What the platform guarantees of the identifiers that matter to likes: no two Like
  documents share an \<^verbatim>\<open>_id\<close>, and every identifier carried by a Like or a Post
  document, or referred to by a Like document, has been handed out already, so that the
  next identifier is new. As shown below, the three mutations preserve it.
\<close>

definition ids_wf :: "database \<Rightarrow> bool" where
  "ids_wf d =
     (distinct (map like_id (likes d)) \<and>
      list_all (\<lambda>l. like_id l < next_id d \<and> like_postId l < next_id d) (likes d) \<and>
      list_all (\<lambda>p. post_id p < next_id d) (posts d))"

text \<open>The application's invariants: the likes counter of every post is the number of Like
  documents that refer to the post, and no user holds two Like documents for one post
  (toggleLike inserts a Like only when it has found none).\<close>

definition likes_mirror :: "database \<Rightarrow> bool" where
  "likes_mirror d =
     list_all (\<lambda>p. post_likes p = int (length (likes_by_post d (post_id p)))) (posts d)"

definition one_like :: "database \<Rightarrow> bool" where
  "one_like d = distinct (map (\<lambda>l. (like_userId l, like_postId l)) (likes d))"

subsection \<open>A small database to evaluate the handlers on\<close>

text \<open>Alice owns the only post; Bob has liked and bookmarked it, and it has one comment.
  Carol has a users record and has not touched the post.\<close>

definition ex_carol :: user where
  "ex_carol = \<lparr>user_id = 0, user_clerkId = ''clerk_carol'', user_username = ''carol'',
               user_image = ''c.png'', user_posts = 0\<rparr>"

definition ex_alice :: user where
  "ex_alice = \<lparr>user_id = 1, user_clerkId = ''clerk_alice'', user_username = ''alice'',
               user_image = ''a.png'', user_posts = 1\<rparr>"

definition ex_bob :: user where
  "ex_bob = \<lparr>user_id = 2, user_clerkId = ''clerk_bob'', user_username = ''bob'',
             user_image = ''b.png'', user_posts = 0\<rparr>"

definition ex_post :: post where
  "ex_post = \<lparr>post_id = 3, post_creationTime = 10, post_userId = 1,
              post_imageUrl = ''https://files/7'', post_storageId = 7,
              post_caption = Some ''hello'', post_likes = 1, post_comments = 1\<rparr>"

definition ex_db :: database where
  "ex_db = \<lparr>users = [ex_carol, ex_alice, ex_bob], posts = [ex_post],
            likes = [\<lparr>like_id = 4, like_userId = 2, like_postId = 3\<rparr>],
            comments = [\<lparr>comment_id = 5, comment_postId = 3\<rparr>],
            bookmarks = [\<lparr>bookmark_id = 6, bookmark_userId = 2, bookmark_postId = 3\<rparr>],
            notifications = [], next_id = 8\<rparr>"

definition ex_ctx :: "identity option \<Rightarrow> ctx" where
  "ex_ctx a = \<lparr>auth = a, db = ex_db,
               storage = [\<lparr>file_id = 7, file_url = ''https://files/7''\<rparr>], now = 20\<rparr>"

definition as_alice :: "identity option" where
  "as_alice = Some \<lparr>subject = ''clerk_alice''\<rparr>"

definition as_bob :: "identity option" where
  "as_bob = Some \<lparr>subject = ''clerk_bob''\<rparr>"

definition as_carol :: "identity option" where
  "as_carol = Some \<lparr>subject = ''clerk_carol''\<rparr>"

text \<open>Three posts whose table order is not their order of creation times.\<close>

definition ex_feed_db :: database where
  "ex_feed_db = ex_db\<lparr>posts := [ex_post,
      \<lparr>post_id = 8, post_creationTime = 30, post_userId = 2,
        post_imageUrl = ''https://files/9'', post_storageId = 9,
        post_caption = None, post_likes = 0, post_comments = 0\<rparr>,
      \<lparr>post_id = 10, post_creationTime = 20, post_userId = 0,
        post_imageUrl = ''https://files/11'', post_storageId = 11,
        post_caption = None, post_likes = 0, post_comments = 0\<rparr>], next_id := 12\<rparr>"

text \<open>Alice's posts counter stands at \<open>2^53\<close>.\<close>

definition ex_big_ctx :: ctx where
  "ex_big_ctx = (ex_ctx as_alice)\<lparr>db := ex_db\<lparr>
     users := [ex_carol, ex_alice\<lparr>user_posts := 9007199254740992\<rparr>, ex_bob]\<rparr>\<rparr>"

lemmas ex_defs = ex_carol_def ex_alice_def ex_bob_def ex_post_def ex_db_def ex_ctx_def
  as_alice_def as_bob_def as_carol_def

lemmas op_defs = db_get_user_def db_get_post_def users_by_clerk_id_def likes_by_user_and_post_def
  bookmarks_by_user_and_post_def likes_by_post_def comments_by_post_def bookmarks_by_post_def
  db_insert_post_def db_insert_like_def db_insert_notification_def db_patch_user_posts_def
  db_patch_post_likes_def db_delete_post_def db_delete_like_def db_delete_comment_def
  db_delete_bookmark_def storage_getUrl_def storage_delete_def

section \<open>Properties\<close>

subsection \<open>The platform's operations and the loops of deletePost\<close>

lemma number_add_exact:
  assumes "- (2 ^ 53) \<le> x" and "x < 2 ^ 53"
  shows "number_add x 1 = x + 1"
proof -
  from assms have "\<bar>x + 1\<bar> \<le> 2 ^ 53" by simp
  then show ?thesis by (simp add: number_add_def f64_round_def Let_def)
qed

lemma f64_round_ties:
  "f64_round 9007199254740993 = 9007199254740992"
  "f64_round 9007199254740995 = 9007199254740996"
  "f64_round (- 9007199254740993) = - 9007199254740992"
  "f64_round 9007199254740994 = 9007199254740994"
  by code_simp+

lemma find_map_preserved:
  "(\<And>x. P (f x) = P x) \<Longrightarrow> find P (map f xs) = map_option f (find P xs)"
  by (induction xs) simp_all

lemma fold_delete_like:
  "fold (\<lambda>l d. db_delete_like d (like_id l)) ls d
     = d\<lparr>likes := filter (\<lambda>l. like_id l \<notin> like_id ` set ls) (likes d)\<rparr>"
  unfolding db_delete_like_def
proof (induction ls arbitrary: d)
  case Nil
  show ?case by simp
next
  case (Cons a ls)
  show ?case
    by (simp add: Cons.IH conj_commute)
qed

lemma fold_delete_comment:
  "fold (\<lambda>cm d. db_delete_comment d (comment_id cm)) cs d
     = d\<lparr>comments := filter (\<lambda>x. comment_id x \<notin> comment_id ` set cs) (comments d)\<rparr>"
  unfolding db_delete_comment_def
proof (induction cs arbitrary: d)
  case Nil
  show ?case by simp
next
  case (Cons a cs)
  show ?case
    by (simp add: Cons.IH conj_commute)
qed

lemma fold_delete_bookmark:
  "fold (\<lambda>b d. db_delete_bookmark d (bookmark_id b)) bs d
     = d\<lparr>bookmarks := filter (\<lambda>x. bookmark_id x \<notin> bookmark_id ` set bs) (bookmarks d)\<rparr>"
  unfolding db_delete_bookmark_def
proof (induction bs arbitrary: d)
  case Nil
  show ?case by simp
next
  case (Cons a bs)
  show ?case
    by (simp add: Cons.IH conj_commute)
qed

lemma storage_delete_Inr:
  "storage_delete s i = Inr s1 \<Longrightarrow> s1 = filter (\<lambda>f. file_id f \<noteq> i) s"
  by (auto simp: storage_delete_def split: option.splits)

lemma deletePost_success:
  assumes "getAunthenticatedUser c = Inr u" and "db_get_post (db c) pid = Some p"
    and "post_userId p = user_id u"
    and "storage_delete (storage c) (post_storageId p) = Inr s1"
  shows "deletePost c pid =
           (Inr (), c\<lparr>db := deleted_db (db c) pid (user_id u), storage := s1\<rparr>)"
  using assms
  by (simp add: deletePost_def Let_def fold_delete_like fold_delete_comment fold_delete_bookmark
      deleted_db_def comments_by_post_def bookmarks_by_post_def likes_by_post_def
      db_delete_post_def db_patch_user_posts_def)

lemma deletePost_Inr_iff:
  "deletePost c pid = (Inr x, c') \<Longrightarrow>
     \<exists>u p s1. getAunthenticatedUser c = Inr u \<and> db_get_post (db c) pid = Some p \<and>
           post_userId p = user_id u \<and>
           storage_delete (storage c) (post_storageId p) = Inr s1"
  by (auto simp: deletePost_def Let_def split: sum.splits option.splits if_splits)

lemma deletePost_missing_file:
  assumes "getAunthenticatedUser c = Inr u" and "db_get_post (db c) pid = Some p"
    and "post_userId p = user_id u"
    and "find (\<lambda>f. file_id f = post_storageId p) (storage c) = None"
  shows "deletePost c pid = (Inl StorageFileNotFound, c)"
  using assms by (simp add: deletePost_def Let_def storage_delete_def)

lemma deletePost_throw: "fst (deletePost c pid) = Inl e \<Longrightarrow> snd (deletePost c pid) = c"
  by (auto simp: deletePost_def Let_def split: sum.splits option.splits if_splits)

lemma find_SomeD: "find P xs = Some x \<Longrightarrow> x \<in> set xs \<and> P x"
  by (induction xs) (auto split: if_splits)


lemma count_after_delete:
  "distinct (map like_id ls) \<Longrightarrow> l \<in> set ls \<Longrightarrow>
     int (length (filter Q (filter (\<lambda>x. like_id x \<noteq> like_id l) ls)))
       = int (length (filter Q ls)) - (if Q l then 1 else 0)"
proof (induction ls)
  case Nil
  then show ?case by simp
next
  case (Cons a ls)
  show ?case
  proof (cases "a = l")
    case True
    with Cons.prems have "like_id l \<notin> like_id ` set ls" by simp
    then have "\<forall>x\<in>set ls. like_id x \<noteq> like_id l" by (metis image_eqI)
    then have "filter (\<lambda>x. like_id x \<noteq> like_id l) ls = ls"
      by (simp add: filter_id_conv)
    with True show ?thesis by simp
  next
    case False
    with Cons.prems have "l \<in> set ls" "like_id a \<noteq> like_id l" "distinct (map like_id ls)"
      by auto
    with Cons.IH show ?thesis by (cases "Q l") auto
  qed
qed

lemma collected_ids:
  assumes "distinct (map like_id ls)"
  shows "filter (\<lambda>l. like_id l \<notin> like_id ` set (filter P ls)) ls = filter (\<lambda>l. \<not> P l) ls"
proof (rule filter_cong [OF refl])
  fix x assume x: "x \<in> set ls"
  from assms have inj: "inj_on like_id (set ls)" by (simp add: distinct_map)
  show "(like_id x \<notin> like_id ` set (filter P ls)) = (\<not> P x)"
  proof
    assume "like_id x \<notin> like_id ` set (filter P ls)"
    with x show "\<not> P x" by auto
  next
    assume n: "\<not> P x"
    show "like_id x \<notin> like_id ` set (filter P ls)"
    proof
      assume "like_id x \<in> like_id ` set (filter P ls)"
      then obtain y where y: "y \<in> set ls" "P y" "like_id x = like_id y" by auto
      with inj x have "x = y" by (auto dest: inj_onD)
      with y n show False by simp
    qed
  qed
qed


subsection \<open>toggleLike in closed form\<close>

lemma toggleLike_unlike:
  assumes "getAunthenticatedUser c = Inr u" and "db_get_post (db c) pid = Some p"
    and "likes_by_user_and_post (db c) (user_id u) pid = Some l"
  shows "toggleLike c pid = (Inr False, c\<lparr>db := unliked_db (db c) pid p l\<rparr>)"
  using assms
  by (simp add: toggleLike_def Let_def unliked_db_def db_delete_like_def db_patch_post_likes_def)

lemma toggleLike_like:
  assumes "getAunthenticatedUser c = Inr u" and "db_get_post (db c) pid = Some p"
    and "likes_by_user_and_post (db c) (user_id u) pid = None"
  shows "toggleLike c pid = (Inr True, c\<lparr>db := liked_db (db c) pid p u\<rparr>)"
  using assms
  by (simp add: toggleLike_def Let_def liked_db_def db_insert_like_def db_patch_post_likes_def
      db_insert_notification_def)

lemma toggleLike_throw:
  "getAunthenticatedUser c = Inl e \<or> db_get_post (db c) pid = None \<Longrightarrow> snd (toggleLike c pid) = c"
  by (auto simp: toggleLike_def Let_def split: sum.splits option.splits)

subsection \<open>Each mutation preserves the invariants\<close>

lemma createPost_preserves:
  assumes "ids_wf (db c)" and "likes_mirror (db c)"
  shows "ids_wf (db (snd (createPost c args))) \<and> likes_mirror (db (snd (createPost c args)))"
proof -
  from assms(1) have fresh: "filter (\<lambda>l. like_postId l = next_id (db c)) (likes (db c)) = []"
    by (auto simp: ids_wf_def list_all_iff filter_empty_conv)
  from assms show ?thesis
    by (auto simp: createPost_def db_insert_post_def db_patch_user_posts_def Let_def fresh
        ids_wf_def likes_mirror_def likes_by_post_def list_all_iff less_Suc_eq
        split: option.splits)
qed

lemma toggleLike_preserves:
  assumes "ids_wf (db c)" and "likes_mirror (db c)"
  shows "ids_wf (db (snd (toggleLike c pid))) \<and> likes_mirror (db (snd (toggleLike c pid)))"
proof (cases "getAunthenticatedUser c")
  case (Inl e)
  with toggleLike_throw [of c e pid] assms show ?thesis by simp
next
  case (Inr u)
  show ?thesis
  proof (cases "db_get_post (db c) pid")
    case None
    with toggleLike_throw [of c undefined pid] assms show ?thesis by simp
  next
    case (Some p)
    then have p: "p \<in> set (posts (db c))" "post_id p = pid"
      by (auto simp: db_get_post_def dest: find_SomeD)
    with assms have pl: "post_likes p = int (length (filter (\<lambda>l. like_postId l = pid) (likes (db c))))"
      and pn: "pid < next_id (db c)"
      by (auto simp: likes_mirror_def ids_wf_def likes_by_post_def list_all_iff)
    from assms(1) have d: "distinct (map like_id (likes (db c)))" by (simp add: ids_wf_def)
    show ?thesis
    proof (cases "likes_by_user_and_post (db c) (user_id u) pid")
      case None
      have fresh: "next_id (db c) \<notin> like_id ` set (likes (db c))"
        using assms(1) by (auto simp: ids_wf_def list_all_iff)
      from assms pn show ?thesis
        by (auto simp: toggleLike_like [OF Inr Some None] liked_db_def ids_wf_def
            likes_mirror_def likes_by_post_def list_all_iff pl fresh less_Suc_eq)
    next
      case (Some l)
      then have l: "l \<in> set (likes (db c))" "like_postId l = pid"
        by (auto simp: likes_by_user_and_post_def dest: find_SomeD)
      have cnt: "int (length (filter (\<lambda>x. like_postId x = q)
                   (filter (\<lambda>x. like_id x \<noteq> like_id l) (likes (db c)))))
             = int (length (filter (\<lambda>x. like_postId x = q) (likes (db c))))
                 - (if q = pid then 1 else 0)" for q
        using count_after_delete [OF d l(1), of "\<lambda>x. like_postId x = q"] l(2) by auto
      have w: "ids_wf (unliked_db (db c) pid p l)"
        using assms(1)
        by (auto simp: unliked_db_def ids_wf_def list_all_iff distinct_map_filter)
      have m: "likes_mirror (unliked_db (db c) pid p l)"
        using assms(2)
        by (auto simp: unliked_db_def likes_mirror_def likes_by_post_def list_all_iff pl
            cnt simp del: filter_filter)
      from w m show ?thesis
        by (simp add: toggleLike_unlike [OF Inr \<open>db_get_post (db c) pid = Some p\<close> Some])
    qed
  qed
qed

lemma deletePost_preserves:
  assumes "ids_wf (db c)" and "likes_mirror (db c)"
  shows "ids_wf (db (snd (deletePost c pid))) \<and> likes_mirror (db (snd (deletePost c pid)))"
proof (cases "\<exists>x c'. deletePost c pid = (Inr x, c')")
  case True
  then obtain x c' where s: "deletePost c pid = (Inr x, c')" by blast
  from deletePost_Inr_iff [OF s] obtain u p s1 where
    h: "getAunthenticatedUser c = Inr u" "db_get_post (db c) pid = Some p"
       "post_userId p = user_id u"
       "storage_delete (storage c) (post_storageId p) = Inr s1" by blast
  from assms(1) have d: "distinct (map like_id (likes (db c)))" by (simp add: ids_wf_def)
  have l: "likes (deleted_db (db c) pid (user_id u))
             = filter (\<lambda>l. like_postId l \<noteq> pid) (likes (db c))"
    using collected_ids [OF d, of "\<lambda>l. like_postId l = pid"]
    by (simp add: deleted_db_def likes_by_post_def del: set_filter)
  have p: "posts (deleted_db (db c) pid (user_id u)) = filter (\<lambda>p. post_id p \<noteq> pid) (posts (db c))"
    and n: "next_id (deleted_db (db c) pid (user_id u)) = next_id (db c)"
    by (simp_all add: deleted_db_def)
  have c: "filter (\<lambda>l. like_postId l \<noteq> pid \<and> like_postId l = q) ls
             = filter (\<lambda>l. like_postId l = q) ls" if "q \<noteq> pid" for q and ls :: "like list"
    using that by (induction ls) auto
  from assms show ?thesis
    by (auto simp: deletePost_success [OF h] ids_wf_def likes_mirror_def likes_by_post_def
        l p n c list_all_iff distinct_map_filter)
next
  case False
  then obtain e where "fst (deletePost c pid) = Inl e"
    by (cases "deletePost c pid") (metis (full_types) fst_conv old.unit.exhaust sumE)
  then have "snd (deletePost c pid) = c" by (rule deletePost_throw)
  with assms show ?thesis by simp
qed

lemma one_like_preserved:
  assumes "one_like (db c)"
  shows "one_like (db (snd (createPost c args))) \<and>
         one_like (db (snd (toggleLike c pid))) \<and>
         one_like (db (snd (deletePost c pid)))"
proof (intro conjI)
  from assms show "one_like (db (snd (createPost c args)))"
    by (auto simp: createPost_def db_insert_post_def db_patch_user_posts_def Let_def one_like_def
        split: option.splits)
next
  show "one_like (db (snd (toggleLike c pid)))"
  proof (cases "getAunthenticatedUser c")
    case (Inl e)
    with toggleLike_throw [of c e pid] assms show ?thesis by simp
  next
    case (Inr u)
    show ?thesis
    proof (cases "db_get_post (db c) pid")
      case None
      with toggleLike_throw [of c undefined pid] assms show ?thesis by simp
    next
      case (Some p)
      show ?thesis
      proof (cases "likes_by_user_and_post (db c) (user_id u) pid")
        case None
        then have "(user_id u, pid) \<notin> (\<lambda>l. (like_userId l, like_postId l)) ` set (likes (db c))"
          by (auto simp: likes_by_user_and_post_def find_None_iff)
        with assms show ?thesis
          by (simp add: toggleLike_like [OF Inr Some None] liked_db_def one_like_def)
      next
        case (Some l)
        from assms show ?thesis
          by (simp add: toggleLike_unlike [OF Inr \<open>db_get_post (db c) pid = Some p\<close> Some]
              unliked_db_def one_like_def distinct_map_filter)
      qed
    qed
  qed
next
  show "one_like (db (snd (deletePost c pid)))"
  proof (cases "\<exists>x c'. deletePost c pid = (Inr x, c')")
    case True
    then obtain x c' where s: "deletePost c pid = (Inr x, c')" by blast
    from deletePost_Inr_iff [OF s] obtain u p s1 where
      h: "getAunthenticatedUser c = Inr u" "db_get_post (db c) pid = Some p"
         "post_userId p = user_id u"
         "storage_delete (storage c) (post_storageId p) = Inr s1" by blast
    from assms show ?thesis
      by (simp add: deletePost_success [OF h] deleted_db_def one_like_def distinct_map_filter)
  next
    case False
    then obtain e where "fst (deletePost c pid) = Inl e"
      by (cases "deletePost c pid") (metis (full_types) fst_conv old.unit.exhaust sumE)
    then have "snd (deletePost c pid) = c" by (rule deletePost_throw)
    with assms show ?thesis by simp
  qed
qed

subsection \<open>The feed\<close>

lemma feed_post_feed_info: "map feed_post (map (feed_info d u) ps) = ps"
  by (induction ps) (simp_all add: feed_info_def Let_def)

lemma getFeedPosts_authenticated:
  "getAunthenticatedUser c = Inr u \<Longrightarrow>
     getFeedPosts c = Inr (map (feed_info (db c) u) (posts_order_desc (db c)))"
  by (simp add: getFeedPosts_def Let_def)

subsection \<open>The example database, evaluated\<close>

lemma ex_auth_alice: "getAunthenticatedUser (ex_ctx as_alice) = Inr ex_alice"
  by (simp add: getAunthenticatedUser_def users_by_clerk_id_def ex_defs)

lemma ex_auth_bob: "getAunthenticatedUser (ex_ctx as_bob) = Inr ex_bob"
  by (simp add: getAunthenticatedUser_def users_by_clerk_id_def ex_defs)

lemma ex_auth_carol: "getAunthenticatedUser (ex_ctx as_carol) = Inr ex_carol"
  by (simp add: getAunthenticatedUser_def users_by_clerk_id_def ex_defs)

lemma ex_get_post: "db_get_post (db (ex_ctx a)) 3 = Some ex_post"
  by (simp add: db_get_post_def ex_defs)

lemma ex_deletePost:
  "deletePost (ex_ctx as_alice) 3 =
     (Inr (), \<lparr>auth = as_alice,
                db = \<lparr>users = [ex_carol, ex_alice\<lparr>user_posts := 2\<rparr>, ex_bob], posts = [],
                       likes = [],
                       comments = [], bookmarks = [], notifications = [], next_id = 8\<rparr>,
                storage = [], now = 20\<rparr>)"
  by code_simp

subsection \<open>Failures\<close>

text \<open>
  C7. A mutation called without an identity throws "Unauthorized" and leaves the database
  and the storage as they were. For generateUploadUrl and createPost this is the source's
  own first check; for toggleLike and deletePost it is the first check of the
  authentication helper.
\<close>

theorem unauthenticated_mutations_fail:
  "auth c = None \<Longrightarrow>
     generateUploadUrl gen c = (Inl (Error ''Unauthorized''), c) \<and>
     createPost c args = (Inl (Error ''Unauthorized''), c) \<and>
     toggleLike c pid = (Inl (Error ''Unauthorized''), c) \<and>
     deletePost c pid = (Inl (Error ''Unauthorized''), c)"
  by (simp add: generateUploadUrl_def createPost_def toggleLike_def deletePost_def
      getAunthenticatedUser_def)

theorem unauthenticated_mutations_fail_witness:
  "auth (ex_ctx None) = None \<and>
   generateUploadUrl (\<lambda>c. (''https://upload/1'', c)) (ex_ctx None) = (Inl (Error ''Unauthorized''), ex_ctx None) \<and>
   createPost (ex_ctx None) \<lparr>caption = None, storageId = 7\<rparr> = (Inl (Error ''Unauthorized''), ex_ctx None) \<and>
   toggleLike (ex_ctx None) 3 = (Inl (Error ''Unauthorized''), ex_ctx None) \<and>
   deletePost (ex_ctx None) 3 = (Inl (Error ''Unauthorized''), ex_ctx None)"
  using unauthenticated_mutations_fail [of "ex_ctx None" "\<lambda>c. (''https://upload/1'', c)" "\<lparr>caption = None, storageId = 7\<rparr>" 3]
  by (simp add: ex_ctx_def)

text \<open>
  C10. Whenever createPost throws, the context it leaves is the one it was given: all three
  checks come before the insert and the patch. The three messages are the only ones.
\<close>

theorem createPost_throw_unchanged:
  "fst (createPost c args) = Inl e \<Longrightarrow>
     snd (createPost c args) = c \<and>
     (e = Error ''Unauthorized'' \<or> e = Error ''User not found'' \<or> e = Error ''Image not found'')"
  by (auto simp: createPost_def db_insert_post_def Let_def split: option.splits if_splits)

theorem createPost_throw_unchanged_witness:
  "fst (createPost (ex_ctx as_alice) \<lparr>caption = None, storageId = 99\<rparr>)
     = Inl (Error ''Image not found'') \<and>
   snd (createPost (ex_ctx as_alice) \<lparr>caption = None, storageId = 99\<rparr>) = ex_ctx as_alice"
proof -
  have a: "fst (createPost (ex_ctx as_alice) \<lparr>caption = None, storageId = 99\<rparr>)
             = Inl (Error ''Image not found'')"
    by (simp add: createPost_def op_defs ex_defs)
  from createPost_throw_unchanged [OF a] a show ?thesis by simp
qed

text \<open>
  C6. deletePost called by an authenticated user who does not own the post throws
  "Not authorized to delete this post" and changes nothing.
\<close>

theorem deletePost_not_owner:
  "getAunthenticatedUser c = Inr u \<Longrightarrow> db_get_post (db c) pid = Some p \<Longrightarrow>
   post_userId p \<noteq> user_id u \<Longrightarrow>
     deletePost c pid = (Inl (Error ''Not authorized to delete this post''), c)"
  by (simp add: deletePost_def)

theorem deletePost_not_owner_witness:
  "getAunthenticatedUser (ex_ctx as_bob) = Inr ex_bob \<and>
   db_get_post (db (ex_ctx as_bob)) 3 = Some ex_post \<and>
   post_userId ex_post \<noteq> user_id ex_bob \<and>
   deletePost (ex_ctx as_bob) 3 = (Inl (Error ''Not authorized to delete this post''), ex_ctx as_bob)"
proof -
  have a: "getAunthenticatedUser (ex_ctx as_bob) = Inr ex_bob"
    by (simp add: getAunthenticatedUser_def users_by_clerk_id_def ex_defs)
  have b: "db_get_post (db (ex_ctx as_bob)) 3 = Some ex_post"
    by (simp add: db_get_post_def ex_defs)
  have c: "post_userId ex_post \<noteq> user_id ex_bob"
    by (simp add: ex_defs)
  from a b c deletePost_not_owner [OF a b c] show ?thesis by simp
qed

subsection \<open>Creating and deleting posts\<close>

text \<open>
  C3, as stated for every user, fails: \<^verbatim>\<open>currentUser.posts + 1\<close> is a float64
  addition, and for a counter that stands at \<open>2^53\<close> the sum rounds back to
  \<open>2^53\<close>. createPost succeeds and inserts the post, and the counter is unchanged.
\<close>

theorem createPost_inserts_and_counts_counterexample:
  "auth ex_big_ctx = Some \<lparr>subject = ''clerk_alice''\<rparr> \<and>
   map_option user_posts (users_by_clerk_id (db ex_big_ctx) ''clerk_alice'')
     = Some 9007199254740992 \<and>
   storage_getUrl (storage ex_big_ctx) 7 = Some ''https://files/7'' \<and>
   fst (createPost ex_big_ctx \<lparr>caption = None, storageId = 7\<rparr>) = Inr 8 \<and>
   length (posts (db (snd (createPost ex_big_ctx \<lparr>caption = None, storageId = 7\<rparr>)))) = 2 \<and>
   map_option user_posts
     (users_by_clerk_id (db (snd (createPost ex_big_ctx \<lparr>caption = None, storageId = 7\<rparr>)))
        ''clerk_alice'')
     = Some 9007199254740992"
  by code_simp

text \<open>
  C3, amended. For an authenticated caller with a users record whose posts counter is an
  integer \<open>n\<close> with \<open>-2^53 \<le> n < 2^53\<close>, and a storage id whose file has a
  (non-empty) URL, createPost succeeds, appends exactly one post, whose likes and comments
  counters are 0, to the posts table, and sets the caller's posts counter to its previous
  value plus one; no other user document changes.
\<close>

theorem createPost_inserts_and_counts:
  assumes "auth c = Some i"
    and "users_by_clerk_id (db c) (subject i) = Some u"
    and "storage_getUrl (storage c) (storageId args) = Some url"
    and "url \<noteq> []"
    and "- (2 ^ 53) \<le> user_posts u" and "user_posts u < 2 ^ 53"
  shows "\<exists>c'. createPost c args = (Inr (next_id (db c)), c') \<and>
           posts (db c') = posts (db c) @
             [\<lparr>post_id = next_id (db c), post_creationTime = now c,
               post_userId = user_id u, post_imageUrl = url,
               post_storageId = storageId args, post_caption = caption args,
               post_likes = 0, post_comments = 0\<rparr>] \<and>
           users_by_clerk_id (db c') (subject i) = Some (u\<lparr>user_posts := user_posts u + 1\<rparr>) \<and>
           users (db c') = map (\<lambda>v. if user_id v = user_id u
                                     then v\<lparr>user_posts := user_posts u + 1\<rparr> else v) (users (db c))"
  using assms(1-4)
  by (simp add: createPost_def db_insert_post_def db_patch_user_posts_def users_by_clerk_id_def
      find_map_preserved number_add_exact [OF assms(5,6)])

theorem createPost_inserts_and_counts_witness:
  "fst (createPost (ex_ctx as_alice) \<lparr>caption = Some ''second'', storageId = 7\<rparr>) = Inr 8 \<and>
   posts (db (snd (createPost (ex_ctx as_alice) \<lparr>caption = Some ''second'', storageId = 7\<rparr>))) =
     [ex_post,
      \<lparr>post_id = 8, post_creationTime = 20, post_userId = 1,
        post_imageUrl = ''https://files/7'', post_storageId = 7,
        post_caption = Some ''second'', post_likes = 0, post_comments = 0\<rparr>] \<and>
   users_by_clerk_id (db (snd (createPost (ex_ctx as_alice)
       \<lparr>caption = Some ''second'', storageId = 7\<rparr>))) ''clerk_alice'' = Some (ex_alice\<lparr>user_posts := 2\<rparr>)"
proof -
  have a: "auth (ex_ctx as_alice) = Some \<lparr>subject = ''clerk_alice''\<rparr>"
    by (simp add: ex_defs)
  have b: "users_by_clerk_id (db (ex_ctx as_alice)) (subject \<lparr>subject = ''clerk_alice''\<rparr>) = Some ex_alice"
    by (simp add: users_by_clerk_id_def ex_defs)
  have c: "storage_getUrl (storage (ex_ctx as_alice))
             (storageId \<lparr>caption = Some ''second'', storageId = 7\<rparr>) = Some ''https://files/7''"
    by (simp add: storage_getUrl_def ex_defs)
  have d: "''https://files/7'' \<noteq> []" by simp
  have e: "- (2 ^ 53) \<le> user_posts ex_alice" "user_posts ex_alice < 2 ^ 53"
    by (simp_all add: ex_defs)
  from createPost_inserts_and_counts [OF a b c d e] show ?thesis
    by (auto simp: ex_defs)
qed

text \<open>
  C2. After a successful deletePost (which only the post's owner obtains) no post has the
  identifier, no like, comment or bookmark refers to it, and the storage holds no file
  under the post's storage id.
\<close>

theorem deletePost_cascade:
  assumes "deletePost c pid = (Inr x, c')" and "db_get_post (db c) pid = Some p"
  shows "db_get_post (db c') pid = None \<and>
         likes_by_post (db c') pid = [] \<and>
         comments_by_post (db c') pid = [] \<and>
         bookmarks_by_post (db c') pid = [] \<and>
         storage_getUrl (storage c') (post_storageId p) = None \<and>
         find (\<lambda>f. file_id f = post_storageId p) (storage c') = None"
proof -
  from deletePost_Inr_iff [OF assms(1)] assms(2) obtain u s1 where
    u: "getAunthenticatedUser c = Inr u" "post_userId p = user_id u"
      and s1: "storage_delete (storage c) (post_storageId p) = Inr s1" by auto
  from deletePost_success [OF u(1) assms(2) u(2) s1] assms(1)
  have c': "c' = c\<lparr>db := deleted_db (db c) pid (user_id u), storage := s1\<rparr>" by simp
  show ?thesis
    by (auto simp: c' storage_delete_Inr [OF s1] deleted_db_def db_get_post_def
        likes_by_post_def comments_by_post_def bookmarks_by_post_def storage_getUrl_def
        find_None_iff filter_empty_conv)
qed

theorem deletePost_cascade_witness:
  "fst (deletePost (ex_ctx as_alice) 3) = Inr () \<and>
   db_get_post (db (ex_ctx as_alice)) 3 = Some ex_post \<and>
   likes_by_post (db (ex_ctx as_alice)) 3 \<noteq> [] \<and>
   comments_by_post (db (ex_ctx as_alice)) 3 \<noteq> [] \<and>
   bookmarks_by_post (db (ex_ctx as_alice)) 3 \<noteq> [] \<and>
   storage_getUrl (storage (ex_ctx as_alice)) 7 \<noteq> None \<and>
   db_get_post (db (snd (deletePost (ex_ctx as_alice) 3))) 3 = None \<and>
   likes_by_post (db (snd (deletePost (ex_ctx as_alice) 3))) 3 = [] \<and>
   comments_by_post (db (snd (deletePost (ex_ctx as_alice) 3))) 3 = [] \<and>
   bookmarks_by_post (db (snd (deletePost (ex_ctx as_alice) 3))) 3 = [] \<and>
   storage_getUrl (storage (snd (deletePost (ex_ctx as_alice) 3))) 7 = None"
proof -
  have s: "post_storageId ex_post = 7" by (simp add: ex_defs)
  have b: "likes_by_post (db (ex_ctx as_alice)) 3 \<noteq> []"
          "comments_by_post (db (ex_ctx as_alice)) 3 \<noteq> []"
          "bookmarks_by_post (db (ex_ctx as_alice)) 3 \<noteq> []"
          "storage_getUrl (storage (ex_ctx as_alice)) 7 \<noteq> None"
    by (simp_all add: op_defs ex_defs)
  have r: "deletePost (ex_ctx as_alice) 3 = (Inr (), snd (deletePost (ex_ctx as_alice) 3))"
    by (simp add: ex_deletePost)
  have f: "fst (deletePost (ex_ctx as_alice) 3) = Inr ()"
    by (simp add: ex_deletePost)
  from deletePost_cascade [OF r ex_get_post] b ex_get_post [of as_alice] f show ?thesis
    by (simp add: s)
qed

text \<open>
  C4. After a successful deletePost the acting user's posts counter is 2, the value of
  \<^verbatim>\<open>Math.max(0, 2)\<close>, whatever it was before: the user document is the
  previous one with the counter overwritten, not decremented.
\<close>

theorem deletePost_sets_posts_counter:
  assumes "getAunthenticatedUser c = Inr u" and "deletePost c pid = (Inr x, c')"
  shows "getAunthenticatedUser c' = Inr (u\<lparr>user_posts := 2\<rparr>)"
proof -
  from deletePost_Inr_iff [OF assms(2)] assms(1) obtain p s1 where
    p: "db_get_post (db c) pid = Some p" "post_userId p = user_id u"
       "storage_delete (storage c) (post_storageId p) = Inr s1" by auto
  from deletePost_success [OF assms(1) p] assms(2)
  have c': "c' = c\<lparr>db := deleted_db (db c) pid (user_id u), storage := s1\<rparr>" by simp
  from assms(1) show ?thesis
    by (auto simp: c' getAunthenticatedUser_def deleted_db_def users_by_clerk_id_def
        find_map_preserved split: option.splits)
qed

theorem deletePost_sets_posts_counter_witness:
  "user_posts ex_alice = 1 \<and>
   fst (deletePost (ex_ctx as_alice) 3) = Inr () \<and>
   getAunthenticatedUser (snd (deletePost (ex_ctx as_alice) 3)) = Inr (ex_alice\<lparr>user_posts := 2\<rparr>)"
  using deletePost_sets_posts_counter [OF ex_auth_alice ex_deletePost]
  by (simp add: ex_deletePost ex_alice_def)

subsection \<open>Likes and the feed\<close>

text \<open>
  C9. For an authenticated caller and an existing post, toggleLike returns true exactly
  when the caller had no like on the post; it then appends the like, and it appends a
  notification of type "like" (receiver the post's owner, sender the caller, the post
  attached) exactly when, in addition, the caller is not the owner. When the caller had a
  like, it returns false, removes that like and appends no notification.
\<close>

theorem toggleLike_result_and_notification:
  assumes "getAunthenticatedUser c = Inr u" and "db_get_post (db c) pid = Some p"
  shows "\<exists>b c'. toggleLike c pid = (Inr b, c') \<and>
           b = (likes_by_user_and_post (db c) (user_id u) pid = None) \<and>
           likes (db c') =
             (case likes_by_user_and_post (db c) (user_id u) pid of
                None \<Rightarrow> likes (db c) @
                  [\<lparr>like_id = next_id (db c), like_userId = user_id u, like_postId = pid\<rparr>]
              | Some l \<Rightarrow> filter (\<lambda>x. like_id x \<noteq> like_id l) (likes (db c))) \<and>
           notifications (db c') = notifications (db c) @
             (if b \<and> user_id u \<noteq> post_userId p
              then [\<lparr>notification_id = Suc (next_id (db c)),
                     notification_receiverId = post_userId p,
                     notification_senderId = user_id u,
                     notification_type = ''like'',
                     notification_postId = Some pid\<rparr>]
              else [])"
  using assms
  by (auto simp: toggleLike_def Let_def db_insert_like_def db_insert_notification_def
      db_patch_post_likes_def db_delete_like_def split: option.splits)

theorem toggleLike_result_and_notification_witness:
  "fst (toggleLike (ex_ctx as_carol) 3) = Inr True \<and>
   likes (db (snd (toggleLike (ex_ctx as_carol) 3))) =
     [\<lparr>like_id = 4, like_userId = 2, like_postId = 3\<rparr>,
      \<lparr>like_id = 8, like_userId = 0, like_postId = 3\<rparr>] \<and>
   notifications (db (snd (toggleLike (ex_ctx as_carol) 3))) =
     [\<lparr>notification_id = 9, notification_receiverId = 1, notification_senderId = 0,
       notification_type = ''like'', notification_postId = Some 3\<rparr>] \<and>
   fst (toggleLike (ex_ctx as_alice) 3) = Inr True \<and>
   notifications (db (snd (toggleLike (ex_ctx as_alice) 3))) = [] \<and>
   fst (toggleLike (ex_ctx as_bob) 3) = Inr False \<and>
   likes (db (snd (toggleLike (ex_ctx as_bob) 3))) = [] \<and>
   notifications (db (snd (toggleLike (ex_ctx as_bob) 3))) = []"
proof -
  have l: "likes_by_user_and_post (db (ex_ctx a)) (user_id ex_carol) 3 = None"
          "likes_by_user_and_post (db (ex_ctx a)) (user_id ex_alice) 3 = None"
          "likes_by_user_and_post (db (ex_ctx a)) (user_id ex_bob) 3
             = Some \<lparr>like_id = 4, like_userId = 2, like_postId = 3\<rparr>" for a
    by (simp_all add: likes_by_user_and_post_def ex_defs)
  have v: "likes (db (ex_ctx a)) = [\<lparr>like_id = 4, like_userId = 2, like_postId = 3\<rparr>]"
          "notifications (db (ex_ctx a)) = []" "next_id (db (ex_ctx a)) = 8"
          "user_id ex_carol = 0" "user_id ex_alice = 1" "post_userId ex_post = 1" for a
    by (simp_all add: ex_defs)
  from toggleLike_result_and_notification [OF ex_auth_carol ex_get_post]
  obtain c1 where c1: "toggleLike (ex_ctx as_carol) 3 = (Inr True, c1)"
    "likes (db c1) = likes (db (ex_ctx as_carol)) @
       [\<lparr>like_id = next_id (db (ex_ctx as_carol)), like_userId = user_id ex_carol,
         like_postId = 3\<rparr>]"
    "notifications (db c1) = notifications (db (ex_ctx as_carol)) @
       (if user_id ex_carol \<noteq> post_userId ex_post
        then [\<lparr>notification_id = Suc (next_id (db (ex_ctx as_carol))),
               notification_receiverId = post_userId ex_post,
               notification_senderId = user_id ex_carol,
               notification_type = ''like'', notification_postId = Some 3\<rparr>]
        else [])"
    by (auto simp: l)
  from toggleLike_result_and_notification [OF ex_auth_alice ex_get_post]
  obtain c2 where c2: "toggleLike (ex_ctx as_alice) 3 = (Inr True, c2)"
    "notifications (db c2) = notifications (db (ex_ctx as_alice)) @
       (if user_id ex_alice \<noteq> post_userId ex_post
        then [\<lparr>notification_id = Suc (next_id (db (ex_ctx as_alice))),
               notification_receiverId = post_userId ex_post,
               notification_senderId = user_id ex_alice,
               notification_type = ''like'', notification_postId = Some 3\<rparr>]
        else [])"
    by (auto simp: l)
  from toggleLike_result_and_notification [OF ex_auth_bob ex_get_post]
  obtain c3 where c3: "toggleLike (ex_ctx as_bob) 3 = (Inr False, c3)"
    "likes (db c3) = filter (\<lambda>x. like_id x \<noteq> 4) (likes (db (ex_ctx as_bob)))"
    "notifications (db c3) = notifications (db (ex_ctx as_bob))"
    by (auto simp: l)
  show ?thesis
    by (simp add: c1 c2 c3 v)
qed

text \<open>
  C8. For a caller the authentication helper accepts, getFeedPosts returns; the posts of
  the returned items are the whole posts table (as a multiset), and their creation times
  are in descending order, newest first.
\<close>

theorem getFeedPosts_newest_first:
  assumes "getAunthenticatedUser c = Inr u"
  shows "\<exists>feed. getFeedPosts c = Inr feed \<and>
           sorted (rev (map post_creationTime (map feed_post feed))) \<and>
           mset (map feed_post feed) = mset (posts (db c))"
proof -
  let ?feed = "map (feed_info (db c) u) (posts_order_desc (db c))"
  have p: "map feed_post ?feed = posts_order_desc (db c)"
    by (rule feed_post_feed_info)
  have "rev (map post_creationTime (posts_order_desc (db c)))
          = map post_creationTime (sort_key post_creationTime (posts (db c)))"
    by (simp add: posts_order_desc_def rev_map)
  then have s: "sorted (rev (map post_creationTime (map feed_post ?feed)))"
    by (simp only: p sorted_sort_key)
  have m: "mset (map feed_post ?feed) = mset (posts (db c))"
    by (simp only: p) (simp add: posts_order_desc_def)
  from getFeedPosts_authenticated [OF assms] s m show ?thesis by blast
qed

theorem getFeedPosts_newest_first_witness:
  "getAunthenticatedUser ((ex_ctx as_bob)\<lparr>db := ex_feed_db\<rparr>) = Inr ex_bob \<and>
   map post_creationTime (posts ex_feed_db) = [10, 30, 20] \<and>
   (\<exists>feed. getFeedPosts ((ex_ctx as_bob)\<lparr>db := ex_feed_db\<rparr>) = Inr feed \<and>
      sorted (rev (map post_creationTime (map feed_post feed))) \<and>
      mset (map feed_post feed) = mset (posts ex_feed_db)) \<and>
   map (\<lambda>x. (post_id (feed_post x), post_creationTime (feed_post x), isLiked x))
     (projr (getFeedPosts ((ex_ctx as_bob)\<lparr>db := ex_feed_db\<rparr>)))
     = [(8, 30, False), (10, 20, False), (3, 10, True)]"
proof -
  have a: "getAunthenticatedUser ((ex_ctx as_bob)\<lparr>db := ex_feed_db\<rparr>) = Inr ex_bob"
    by code_simp
  have t: "map post_creationTime (posts ex_feed_db) = [10, 30, 20]"
    by (simp add: ex_feed_db_def ex_post_def)
  from getFeedPosts_newest_first [OF a]
  have e: "\<exists>feed. getFeedPosts ((ex_ctx as_bob)\<lparr>db := ex_feed_db\<rparr>) = Inr feed \<and>
      sorted (rev (map post_creationTime (map feed_post feed))) \<and>
      mset (map feed_post feed) = mset (posts ex_feed_db)"
    by simp
  have v: "map (\<lambda>x. (post_id (feed_post x), post_creationTime (feed_post x), isLiked x))
     (projr (getFeedPosts ((ex_ctx as_bob)\<lparr>db := ex_feed_db\<rparr>)))
     = [(8, 30, False), (10, 20, False), (3, 10, True)]"
    by code_simp
  from a t e v show ?thesis by (intro conjI)
qed

subsection \<open>The likes counter\<close>

text \<open>
  C5. From a database in which every post's likes counter equals the number of Like
  documents referring to the post (and whose identifiers are as the platform hands them
  out), createPost, toggleLike and deletePost each lead, whatever their result, to a
  database with the same two properties.
\<close>

theorem likes_mirror_preserved:
  assumes "ids_wf (db c)" and "likes_mirror (db c)"
  shows "likes_mirror (db (snd (createPost c args))) \<and>
         likes_mirror (db (snd (toggleLike c pid))) \<and>
         likes_mirror (db (snd (deletePost c pid))) \<and>
         ids_wf (db (snd (createPost c args))) \<and>
         ids_wf (db (snd (toggleLike c pid))) \<and>
         ids_wf (db (snd (deletePost c pid)))"
  using createPost_preserves [OF assms] toggleLike_preserves [OF assms]
    deletePost_preserves [OF assms]
  by simp

theorem likes_mirror_preserved_witness:
  "ids_wf (db (ex_ctx as_alice)) \<and> likes_mirror (db (ex_ctx as_alice)) \<and>
   fst (createPost (ex_ctx as_alice) \<lparr>caption = None, storageId = 7\<rparr>) = Inr 8 \<and>
   likes_mirror (db (snd (createPost (ex_ctx as_alice) \<lparr>caption = None, storageId = 7\<rparr>))) \<and>
   fst (toggleLike (ex_ctx as_alice) 3) = Inr True \<and>
   likes_mirror (db (snd (toggleLike (ex_ctx as_alice) 3))) \<and>
   fst (deletePost (ex_ctx as_alice) 3) = Inr () \<and>
   likes_mirror (db (snd (deletePost (ex_ctx as_alice) 3)))"
proof -
  have w: "ids_wf (db (ex_ctx as_alice))" by code_simp
  have m: "likes_mirror (db (ex_ctx as_alice))" by code_simp
  have r: "fst (createPost (ex_ctx as_alice) \<lparr>caption = None, storageId = 7\<rparr>) = Inr 8"
          "fst (toggleLike (ex_ctx as_alice) 3) = Inr True"
          "fst (deletePost (ex_ctx as_alice) 3) = Inr ()"
    by code_simp+
  from likes_mirror_preserved [OF w m, of "\<lparr>caption = None, storageId = 7\<rparr>" 3] w m r
  show ?thesis by simp
qed



end
